theory Spec2Isabelle
  imports Complex_Main
begin

section \<open>Confidence intervals for differences of population parameters\<close>

text \<open>
  The notebook \<^verbatim>\<open>course2/2.5_Confidence_Intervals_Differences_Population_Parameters\<close>
  computes, on scalars read from two summary tables, the standard error of a proportion,
  the standard error of a mean, a pooled standard error and a 95% interval. Its cells are
  straight-line NumPy arithmetic; each repeated expression is embedded here once, as a
  function of the scalars it reads.

  Numbers are \<^verbatim>\<open>numpy.float64\<close> scalars. They are modelled as exact reals extended
  by the three non-finite values that NumPy returns (with a warning, never an exception)
  where the real operation is undefined. Rounding and the sign of zero are not modelled.
  Overflow and underflow are modelled where a property depends on them: the pooling cell
  has a second embedding, in which a result beyond the range of binary64 becomes infinite
  and one below it becomes zero.
\<close>

subsection \<open>NumPy scalars\<close>

datatype npfloat = Num real | PInf | NInf | NaN

text \<open>The result of dividing a non-zero finite number of sign \<open>s\<close> by zero, and of
  multiplying an infinity by it: \<open>nan\<close> when \<open>s\<close> is zero.\<close>

definition inf_of_sign :: "real \<Rightarrow> npfloat" where
  "inf_of_sign s = (if s = 0 then NaN else if 0 < s then PInf else NInf)"

fun np_neg :: "npfloat \<Rightarrow> npfloat" where
  "np_neg (Num x) = Num (- x)"
| "np_neg PInf = NInf"
| "np_neg NInf = PInf"
| "np_neg NaN = NaN"

fun np_add :: "npfloat \<Rightarrow> npfloat \<Rightarrow> npfloat" where
  "np_add NaN y = NaN"
| "np_add x NaN = NaN"
| "np_add (Num x) (Num y) = Num (x + y)"
| "np_add PInf NInf = NaN"
| "np_add NInf PInf = NaN"
| "np_add PInf y = PInf"
| "np_add x PInf = PInf"
| "np_add NInf y = NInf"
| "np_add x NInf = NInf"

definition np_sub :: "npfloat \<Rightarrow> npfloat \<Rightarrow> npfloat" where
  "np_sub x y = np_add x (np_neg y)"

fun np_mul :: "npfloat \<Rightarrow> npfloat \<Rightarrow> npfloat" where
  "np_mul NaN y = NaN"
| "np_mul x NaN = NaN"
| "np_mul (Num x) (Num y) = Num (x * y)"
| "np_mul (Num x) PInf = inf_of_sign x"
| "np_mul (Num x) NInf = inf_of_sign (- x)"
| "np_mul PInf (Num y) = inf_of_sign y"
| "np_mul NInf (Num y) = inf_of_sign (- y)"
| "np_mul PInf PInf = PInf"
| "np_mul PInf NInf = NInf"
| "np_mul NInf PInf = NInf"
| "np_mul NInf NInf = PInf"

fun np_div :: "npfloat \<Rightarrow> npfloat \<Rightarrow> npfloat" where
  "np_div NaN y = NaN"
| "np_div x NaN = NaN"
| "np_div (Num x) (Num y) = (if y = 0 then inf_of_sign x else Num (x / y))"
| "np_div (Num x) PInf = Num 0"
| "np_div (Num x) NInf = Num 0"
| "np_div PInf (Num y) = (if 0 \<le> y then PInf else NInf)"
| "np_div NInf (Num y) = (if 0 \<le> y then NInf else PInf)"
| "np_div x y = NaN"

text \<open>\<^verbatim>\<open>np.sqrt\<close>: \<open>nan\<close> on a negative argument.\<close>

fun np_sqrt :: "npfloat \<Rightarrow> npfloat" where
  "np_sqrt (Num x) = (if x < 0 then NaN else Num (sqrt x))"
| "np_sqrt PInf = PInf"
| "np_sqrt NInf = NaN"
| "np_sqrt NaN = NaN"

text \<open>\<^verbatim>\<open>x ** 2\<close>.\<close>

fun np_square :: "npfloat \<Rightarrow> npfloat" where
  "np_square (Num x) = Num (x\<^sup>2)"
| "np_square PInf = PInf"
| "np_square NInf = PInf"
| "np_square NaN = NaN"

text \<open>The comparison \<^verbatim>\<open>x <= y\<close>: false as soon as one side is \<open>nan\<close>.\<close>

fun np_le :: "npfloat \<Rightarrow> npfloat \<Rightarrow> bool" where
  "np_le NaN y = False"
| "np_le x NaN = False"
| "np_le (Num x) (Num y) = (x \<le> y)"
| "np_le NInf y = True"
| "np_le x PInf = True"
| "np_le x y = False"

text \<open>The comparison \<^verbatim>\<open>x < y\<close>.\<close>

fun np_lt :: "npfloat \<Rightarrow> npfloat \<Rightarrow> bool" where
  "np_lt NaN y = False"
| "np_lt x NaN = False"
| "np_lt (Num x) (Num y) = (x < y)"
| "np_lt PInf y = False"
| "np_lt x NInf = False"
| "np_lt x y = True"

fun is_finite :: "npfloat \<Rightarrow> bool" where
  "is_finite (Num x) = True"
| "is_finite x = False"

text \<open>\<open>approx v c tol\<close>: the scalar \<open>v\<close> is a finite number within \<open>tol\<close> of \<open>c\<close>.\<close>

fun approx :: "npfloat \<Rightarrow> real \<Rightarrow> real \<Rightarrow> bool" where
  "approx (Num x) c tol = (\<bar>x - c\<bar> \<le> tol)"
| "approx x c tol = False"

text \<open>\<open>np_close v w tol\<close>: both scalars are finite numbers, within \<open>tol\<close> of each other.\<close>

fun np_close :: "npfloat \<Rightarrow> npfloat \<Rightarrow> real \<Rightarrow> bool" where
  "np_close (Num x) (Num y) tol = (\<bar>x - y\<bar> \<le> tol)"
| "np_close x y tol = False"

subsection \<open>The computations of the notebook\<close>

text \<open>Cells 9 and 10, \<^verbatim>\<open>se_female = np.sqrt(pf * (1 - pf) / nf)\<close> and the same for
  \<^verbatim>\<open>se_male\<close>: the proportion is a float of the table, the count an integer of it.\<close>

definition standard_error_proportion :: "real \<Rightarrow> int \<Rightarrow> npfloat" where
  "standard_error_proportion p n =
     np_sqrt (np_div (np_mul (Num p) (np_sub (Num 1) (Num p))) (Num (real_of_int n)))"

text \<open>Cell 20, \<^verbatim>\<open>sem_female = std / np.sqrt(size)\<close> and the same for \<^verbatim>\<open>sem_male\<close>.\<close>

definition standard_error_mean :: "real \<Rightarrow> int \<Rightarrow> npfloat" where
  "standard_error_mean std n = np_div (Num std) (np_sqrt (Num (real_of_int n)))"

text \<open>Cells 11 and 21, \<^verbatim>\<open>se_diff = np.sqrt(se_female**2 + se_male**2)\<close>.\<close>

definition pool_standard_errors :: "npfloat \<Rightarrow> npfloat \<Rightarrow> npfloat" where
  "pool_standard_errors se_a se_b = np_sqrt (np_add (np_square se_a) (np_square se_b))"

text \<open>Cells 12 and 23, \<^verbatim>\<open>lcb = di - 1.96 * se_diff\<close>, \<^verbatim>\<open>ucb = di + 1.96 * se_diff\<close>,
  \<^verbatim>\<open>(lcb, ucb)\<close>. The multiplier is the literal of the source; the cells read no
  coverage level.\<close>

definition confidence_interval :: "npfloat \<Rightarrow> npfloat \<Rightarrow> npfloat \<times> npfloat" where
  "confidence_interval di se =
     (np_sub di (np_mul (Num (196 / 100)) se), np_add di (np_mul (Num (196 / 100)) se))"

text \<open>Cells 8 to 12 in sequence: the difference of the smoking proportions, male minus
  female, with its interval.\<close>

definition proportion_difference_interval ::
  "real \<Rightarrow> int \<Rightarrow> real \<Rightarrow> int \<Rightarrow> npfloat \<times> npfloat" where
  "proportion_difference_interval pm nm pf nf =
     (let di = np_sub (Num pm) (Num pf);
          se_female = standard_error_proportion pf nf;
          se_male = standard_error_proportion pm nm;
          se_diff = pool_standard_errors se_female se_male
      in confidence_interval di se_diff)"


subsection \<open>The range of binary64\<close>

text \<open>Half the smallest positive binary64 number: an exact result of at most this
  magnitude is returned as zero.\<close>

definition f64_underflow :: real where
  "f64_underflow = 1 / 2 ^ 1075"

text \<open>The largest binary64 number plus half a unit of its last place: an exact result
  of at least this magnitude is returned as an infinity.\<close>

definition f64_overflow :: real where
  "f64_overflow = 2 ^ 1024 - 2 ^ 970"

text \<open>What binary64 returns for an operation whose exact result is \<open>x\<close>, as far as its
  range goes; between the two thresholds the rounding of \<open>x\<close> to 53 bits is left out.\<close>

definition f64_range :: "real \<Rightarrow> npfloat" where
  "f64_range x =
     (if \<bar>x\<bar> \<le> f64_underflow then Num 0
      else if f64_overflow \<le> x then PInf
      else if x \<le> - f64_overflow then NInf
      else Num x)"

text \<open>\<^verbatim>\<open>x ** 2\<close> and \<^verbatim>\<open>x + y\<close> with the range of binary64.\<close>

fun f64_square :: "npfloat \<Rightarrow> npfloat" where
  "f64_square (Num x) = f64_range (x\<^sup>2)"
| "f64_square PInf = PInf"
| "f64_square NInf = PInf"
| "f64_square NaN = NaN"

fun f64_add :: "npfloat \<Rightarrow> npfloat \<Rightarrow> npfloat" where
  "f64_add NaN y = NaN"
| "f64_add x NaN = NaN"
| "f64_add (Num x) (Num y) = f64_range (x + y)"
| "f64_add PInf NInf = NaN"
| "f64_add NInf PInf = NaN"
| "f64_add PInf y = PInf"
| "f64_add x PInf = PInf"
| "f64_add NInf y = NInf"
| "f64_add x NInf = NInf"

text \<open>Cells 11 and 21 again, \<^verbatim>\<open>np.sqrt(se_female**2 + se_male**2)\<close>, with the range of
  binary64 in the squares and in their sum; a square root leaves the range nowhere.\<close>

definition pool_standard_errors_f64 :: "npfloat \<Rightarrow> npfloat \<Rightarrow> npfloat" where
  "pool_standard_errors_f64 se_a se_b = np_sqrt (f64_add (f64_square se_a) (f64_square se_b))"

section \<open>Properties\<close>

subsection \<open>Finite arguments\<close>

lemma np_sub_Num: "np_sub (Num x) (Num y) = Num (x - y)"
  by (simp add: np_sub_def)

lemma pool_Num: "pool_standard_errors (Num a) (Num b) = Num (sqrt (a\<^sup>2 + b\<^sup>2))"
proof -
  have "\<not> a\<^sup>2 + b\<^sup>2 < 0" by (simp add: not_less)
  then show ?thesis by (simp add: pool_standard_errors_def)
qed

lemma confidence_interval_Num:
  "confidence_interval (Num pe) (Num se) =
     (Num (pe - 196 / 100 * se), Num (pe + 196 / 100 * se))"
  by (simp add: confidence_interval_def np_sub_def)

lemma standard_error_proportion_Num:
  assumes "0 \<le> p" and "p \<le> 1" and "0 < n"
  shows "standard_error_proportion p n = Num (sqrt (p * (1 - p) / real_of_int n))"
proof -
  from assms have "0 \<le> p * (1 - p) / real_of_int n" by simp
  then have "\<not> p * (1 - p) / real_of_int n < 0" by (simp add: not_less)
  with assms show ?thesis
    by (simp add: standard_error_proportion_def np_sub_def)
qed

lemma standard_error_mean_Num:
  assumes "0 < n"
  shows "standard_error_mean d n = Num (d / sqrt (real_of_int n))"
  using assms by (simp add: standard_error_mean_def)


text \<open>On valid summaries the two pipelines hand a finite difference and a finite pooled
  standard error to the interval construction.\<close>

lemma proportion_difference_interval_Num:
  assumes "0 \<le> pm" and "pm \<le> 1" and "0 < nm" and "0 \<le> pf" and "pf \<le> 1" and "0 < nf"
  shows "proportion_difference_interval pm nm pf nf =
           confidence_interval (Num (pm - pf))
             (Num (sqrt (pf * (1 - pf) / real_of_int nf + pm * (1 - pm) / real_of_int nm)))"
proof -
  from assms have f: "0 \<le> pf * (1 - pf) / real_of_int nf" by simp
  from assms have m: "0 \<le> pm * (1 - pm) / real_of_int nm" by simp
  have sf: "standard_error_proportion pf nf = Num (sqrt (pf * (1 - pf) / real_of_int nf))"
    using assms(4,5,6) by (rule standard_error_proportion_Num)
  have sm: "standard_error_proportion pm nm = Num (sqrt (pm * (1 - pm) / real_of_int nm))"
    using assms(1,2,3) by (rule standard_error_proportion_Num)
  show ?thesis
    unfolding proportion_difference_interval_def Let_def sf sm pool_Num np_sub_Num
      real_sqrt_pow2 [OF f] real_sqrt_pow2 [OF m] ..
qed


text \<open>A square root lies within \<open>tol\<close> of \<open>c\<close> as soon as its argument lies between the
  squares of \<open>c - tol\<close> and \<open>c + tol\<close>.\<close>

lemma sqrt_between:
  assumes "lo\<^sup>2 \<le> x" and "x \<le> hi\<^sup>2" and "0 \<le> hi"
  shows "lo \<le> sqrt x \<and> sqrt x \<le> hi"
  using assms by (simp add: real_le_rsqrt real_le_lsqrt)

subsection \<open>Pooling within the range of binary64\<close>

lemma f64_underflow_pos: "0 < f64_underflow"
  by (simp add: f64_underflow_def)

lemma f64_overflow_pos: "0 < f64_overflow"
proof -
  have "(2::real) ^ 970 < 2 ^ 1024" by (rule power_strict_increasing) simp_all
  then show ?thesis by (simp add: f64_overflow_def)
qed

lemma f64_range_zero: "f64_range 0 = Num 0"
  using f64_underflow_pos by (simp add: f64_range_def)

text \<open>The square of a number of at least \<open>2\<^sup>-\<^sup>5\<^sup>1\<^sup>1\<close> is at least the smallest normal
  number, above the underflow threshold.\<close>

lemma normal_square:
  assumes "1 / 2 ^ 511 \<le> a"
  shows "f64_underflow < a\<^sup>2"
proof -
  have "(1 / 2 ^ 511 :: real)\<^sup>2 \<le> a\<^sup>2" using assms by (intro power_mono) simp_all
  moreover have "(1 / 2 ^ 511 :: real)\<^sup>2 = 1 / 2 ^ 1022"
    by (simp add: power_divide flip: power_mult)
  moreover have "(1::real) / 2 ^ 1075 < 1 / 2 ^ 1022"
    by (simp add: frac_less2 power_strict_increasing)
  ultimately show ?thesis by (simp add: f64_underflow_def)
qed

text \<open>The square of \<open>2\<^sup>-\<^sup>6\<^sup>0\<^sup>0\<close> is returned as zero.\<close>

lemma f64_square_tiny: "f64_square (Num (1 / 2 ^ 600)) = Num 0"
proof -
  have "(1 / 2 ^ 600 :: real)\<^sup>2 = 1 / 2 ^ 1200"
    by (simp add: power_divide flip: power_mult)
  moreover have "(1::real) / 2 ^ 1200 \<le> 1 / 2 ^ 1075"
    by (simp add: frac_le power_increasing)
  ultimately show ?thesis by (simp add: f64_range_def f64_underflow_def)
qed

lemma f64_add_commute: "f64_add x y = f64_add y x"
  by (cases x; cases y) (simp_all add: add.commute)

lemma pool_standard_errors_f64_commute:
  "pool_standard_errors_f64 x y = pool_standard_errors_f64 y x"
  by (simp add: pool_standard_errors_f64_def f64_add_commute)

lemma pool_f64_ge_normal:
  assumes "0 \<le> b" and "f64_underflow < a\<^sup>2" and "0 \<le> a"
  shows "np_le (Num a) (pool_standard_errors_f64 (Num a) (Num b))"
proof -
  have u: "0 < f64_underflow" by (rule f64_underflow_pos)
  have o: "0 < f64_overflow" by (rule f64_overflow_pos)
  have b2: "0 \<le> b\<^sup>2" by simp
  have l: "a \<le> sqrt (a\<^sup>2 + b\<^sup>2)" by (rule real_le_rsqrt) simp
  have l0: "a \<le> sqrt (a\<^sup>2)" using assms(3) by simp
  have n: "\<not> a\<^sup>2 + b\<^sup>2 < 0" by (simp add: not_less)
  from assms u o b2 l l0 n show ?thesis
    by (auto simp: pool_standard_errors_f64_def f64_range_def)
qed

lemma pool_f64_ge_zero:
  assumes "0 \<le> b"
  shows "np_le (Num 0) (pool_standard_errors_f64 (Num 0) (Num b))"
proof -
  have u: "0 < f64_underflow" by (rule f64_underflow_pos)
  have o: "0 < f64_overflow" by (rule f64_overflow_pos)
  from assms u o show ?thesis
    by (auto simp: pool_standard_errors_f64_def f64_range_def)
qed

lemma pool_f64_ge:
  assumes "0 \<le> b" and "a = 0 \<or> 1 / 2 ^ 511 \<le> a"
  shows "np_le (Num a) (pool_standard_errors_f64 (Num a) (Num b))"
proof (cases "a = 0")
  case True
  with assms(1) show ?thesis by (simp only: pool_f64_ge_zero)
next
  case False
  with assms(2) have n: "1 / 2 ^ 511 \<le> a" by blast
  have "(0::real) \<le> 1 / 2 ^ 511" by simp
  from this n have "0 \<le> a" by (rule order_trans)
  with assms(1) normal_square [OF n] show ?thesis by (simp only: pool_f64_ge_normal)
qed

subsection \<open>Standard errors\<close>

text \<open>
  Claim C3. For a proportion \<open>p\<close> in \<open>[0, 1]\<close> and a count \<open>n > 0\<close>, the standard error
  of the proportion is the number \<open>sqrt (p * (1 - p) / n)\<close>, hence within \<open>1e-9\<close> of it,
  and it is the number \<open>0\<close> when \<open>p\<close> is \<open>0\<close> or \<open>1\<close>: a value, not a failure.
\<close>

theorem standard_error_proportion_formula:
  assumes "0 \<le> p" and "p \<le> 1" and "0 < n"
  shows "standard_error_proportion p n = Num (sqrt (p * (1 - p) / real_of_int n))
       \<and> approx (standard_error_proportion p n) (sqrt (p * (1 - p) / real_of_int n)) (1 / 10 ^ 9)
       \<and> standard_error_proportion 0 n = Num 0
       \<and> standard_error_proportion 1 n = Num 0"
proof -
  have a: "standard_error_proportion p n = Num (sqrt (p * (1 - p) / real_of_int n))"
    using assms by (rule standard_error_proportion_Num)
  have z: "standard_error_proportion 0 n = Num 0"
    using standard_error_proportion_Num [of 0 n] assms(3) by simp
  have u: "standard_error_proportion 1 n = Num 0"
    using standard_error_proportion_Num [of 1 n] assms(3) by simp
  from a z u show ?thesis by simp
qed

theorem standard_error_proportion_formula_witness:
  "(0::real) \<le> 1 / 2 \<and> (1 / 2 :: real) \<le> 1 \<and> (0::int) < 4
   \<and> standard_error_proportion (1 / 2) 4 = Num (sqrt (1 / 2 * (1 - 1 / 2) / real_of_int 4))
   \<and> standard_error_proportion 0 4 = Num 0
   \<and> standard_error_proportion 1 4 = Num 0"
  using standard_error_proportion_formula [of "1 / 2" 4] by simp

text \<open>
  Claim C4. For a dispersion \<open>d \<ge> 0\<close> and a count \<open>n > 0\<close>, the standard error of the
  mean is the number \<open>d / sqrt n\<close>.
\<close>

theorem standard_error_mean_formula:
  assumes "0 \<le> d" and "0 < n"
  shows "standard_error_mean d n = Num (d / sqrt (real_of_int n))"
  using assms(2) by (rule standard_error_mean_Num)

theorem standard_error_mean_formula_witness:
  "(0::real) \<le> 3 \<and> (0::int) < 5 \<and> standard_error_mean 3 5 = Num (3 / sqrt (real_of_int 5))"
  using standard_error_mean_formula [of 3 5] by simp

subsection \<open>Pooling\<close>



text \<open>
  Claim C10, as the code has it. For standard errors \<open>a, b \<ge> 0\<close>, pooling \<open>a\<close> with \<open>b\<close>
  equals pooling \<open>b\<close> with \<open>a\<close>, and the pooled standard error is at least an input that
  is zero or at least \<open>2\<^sup>-\<^sup>5\<^sup>1\<^sup>1\<close>, whose square does not underflow.
\<close>

theorem pool_standard_errors_f64_dominates_sym:
  assumes "0 \<le> a" and "0 \<le> b"
  shows "pool_standard_errors_f64 (Num a) (Num b) = pool_standard_errors_f64 (Num b) (Num a)
       \<and> (a = 0 \<or> 1 / 2 ^ 511 \<le> a \<longrightarrow>
            np_le (Num a) (pool_standard_errors_f64 (Num a) (Num b)))
       \<and> (b = 0 \<or> 1 / 2 ^ 511 \<le> b \<longrightarrow>
            np_le (Num b) (pool_standard_errors_f64 (Num a) (Num b)))"
proof (intro conjI impI)
  show "pool_standard_errors_f64 (Num a) (Num b) = pool_standard_errors_f64 (Num b) (Num a)"
    by (rule pool_standard_errors_f64_commute)
next
  assume "a = 0 \<or> 1 / 2 ^ 511 \<le> a"
  with assms(2) show "np_le (Num a) (pool_standard_errors_f64 (Num a) (Num b))"
    by (rule pool_f64_ge)
next
  assume "b = 0 \<or> 1 / 2 ^ 511 \<le> b"
  with assms(1) have "np_le (Num b) (pool_standard_errors_f64 (Num b) (Num a))"
    by (rule pool_f64_ge)
  then show "np_le (Num b) (pool_standard_errors_f64 (Num a) (Num b))"
    by (simp only: pool_standard_errors_f64_commute [of "Num a" "Num b"])
qed

theorem pool_standard_errors_f64_dominates_sym_witness:
  "(0::real) \<le> 3 \<and> (0::real) \<le> 4
   \<and> (1::real) / 2 ^ 511 \<le> 3 \<and> (1::real) / 2 ^ 511 \<le> 4
   \<and> pool_standard_errors_f64 (Num 3) (Num 4) = pool_standard_errors_f64 (Num 4) (Num 3)
   \<and> np_le (Num 3) (pool_standard_errors_f64 (Num 3) (Num 4))
   \<and> np_le (Num 4) (pool_standard_errors_f64 (Num 3) (Num 4))"
proof -
  have h: "(0::real) \<le> 3" "(0::real) \<le> 4" by simp_all
  have n: "(1::real) / 2 ^ 511 \<le> 3" "(1::real) / 2 ^ 511 \<le> 4"
    by (simp_all add: divide_le_eq)
  from pool_standard_errors_f64_dominates_sym [OF h] h n show ?thesis by blast
qed

text \<open>
  Claim C10, as stated, fails: the square of the standard error \<open>2\<^sup>-\<^sup>6\<^sup>0\<^sup>0\<close> underflows
  to zero, so pooling it with \<open>0\<close> returns \<open>0.0\<close>, below the input.
\<close>

theorem pool_below_input_on_underflow:
  "\<not> np_le (Num (1 / 2 ^ 600)) (pool_standard_errors_f64 (Num (1 / 2 ^ 600)) (Num 0))"
proof -
  have s0: "f64_square (Num 0) = Num 0" by (simp add: f64_range_zero)
  have a0: "f64_add (Num 0) (Num 0) = Num 0" by (simp add: f64_range_zero)
  have "pool_standard_errors_f64 (Num (1 / 2 ^ 600)) (Num 0) = Num 0"
    unfolding pool_standard_errors_f64_def f64_square_tiny s0 a0 by simp
  then show ?thesis by simp
qed

subsection \<open>Interval construction\<close>

text \<open>
  Claim C6, as the code has it. For every point estimate and every standard error
  \<open>se \<ge> 0\<close>, the interval has the bounds \<open>pe - 1.96 * se\<close> and \<open>pe + 1.96 * se\<close>, with the
  one multiplier of the code and no coverage; while \<open>\<bar>pe\<bar> + 1.96 * se\<close> is at most \<open>10\<^sup>6\<close>,
  the upper bound minus the point estimate is within \<open>1e-9\<close> of the point estimate minus
  the lower bound. Beyond that magnitude the rounding of the two bounds, which is not
  modelled, can exceed the tolerance.
\<close>

theorem confidence_interval_bounds_fixed_multiplier:
  assumes "0 \<le> se"
  shows "confidence_interval (Num pe) (Num se) =
           (Num (pe - 196 / 100 * se), Num (pe + 196 / 100 * se))
       \<and> (\<bar>pe\<bar> + 196 / 100 * se \<le> 1000000 \<longrightarrow>
            np_close (np_sub (snd (confidence_interval (Num pe) (Num se))) (Num pe))
                     (np_sub (Num pe) (fst (confidence_interval (Num pe) (Num se))))
                     (1 / 10 ^ 9))"
  by (simp add: confidence_interval_Num np_sub_Num)

theorem confidence_interval_bounds_fixed_multiplier_witness:
  "(0::real) \<le> 2 \<and> \<bar>10::real\<bar> + 196 / 100 * 2 \<le> 1000000
   \<and> confidence_interval (Num 10) (Num 2) =
        (Num (10 - 196 / 100 * 2), Num (10 + 196 / 100 * 2))
   \<and> np_close (np_sub (snd (confidence_interval (Num 10) (Num 2))) (Num 10))
               (np_sub (Num 10) (fst (confidence_interval (Num 10) (Num 2))))
               (1 / 10 ^ 9)"
proof -
  have h: "(0::real) \<le> 2" by simp
  have m: "\<bar>10::real\<bar> + 196 / 100 * 2 \<le> 1000000" by simp
  from confidence_interval_bounds_fixed_multiplier [OF h, of 10] h m show ?thesis by blast
qed

text \<open>
  Claim C6, as stated, fails: at the 95% level, point estimate \<open>0\<close> and standard error
  \<open>1\<close>, the claim has the lower bound \<open>-z\<close> with the critical value \<open>z = 1.959964\<close>; the
  lower bound of the code is \<open>-1.96\<close>, not within \<open>1e-6\<close> of it.
\<close>

theorem lower_bound_not_critical_value:
  "\<not> approx (fst (confidence_interval (Num 0) (Num 1)))
             (- (1959964 / 1000000)) (1 / 1000000)"
  by (simp add: confidence_interval_Num)

text \<open>
  Claim C1, as the code has it. The multiplier of the interval is the constant \<open>1.96\<close>
  for every input: dividing either half-width by a non-zero standard error gives it
  back. The code reads no coverage level.
\<close>

theorem confidence_interval_multiplier_fixed:
  assumes "se \<noteq> 0"
  shows "np_div (np_sub (snd (confidence_interval (Num pe) (Num se))) (Num pe)) (Num se)
           = Num (196 / 100)
       \<and> np_div (np_sub (Num pe) (fst (confidence_interval (Num pe) (Num se)))) (Num se)
           = Num (196 / 100)"
  using assms by (simp add: confidence_interval_Num np_sub_Num)

theorem confidence_interval_multiplier_fixed_witness:
  "(2::real) \<noteq> 0
   \<and> np_div (np_sub (snd (confidence_interval (Num 10) (Num 2))) (Num 10)) (Num 2)
        = Num (196 / 100)
   \<and> np_div (np_sub (Num 10) (fst (confidence_interval (Num 10) (Num 2)))) (Num 2)
        = Num (196 / 100)"
proof -
  have h: "(2::real) \<noteq> 0" by simp
  from confidence_interval_multiplier_fixed [OF h, of 10] h show ?thesis by blast
qed

text \<open>
  Claim C1, as stated, fails: at the 95% level the claim asks for the critical value
  \<open>1.959964\<close>; the multiplier of the code, read off the interval at point estimate \<open>0\<close>
  and standard error \<open>1\<close>, is not within \<open>1e-6\<close> of it.
\<close>

theorem multiplier_not_critical_value:
  "\<not> approx (snd (confidence_interval (Num 0) (Num 1))) (1959964 / 1000000) (1 / 1000000)"
  by (simp add: confidence_interval_Num)

text \<open>
  Claim C7, as the code has it. The width of the interval is \<open>3.92 * se\<close>: the point
  estimate and the standard error alone fix the interval, at every intended coverage.
\<close>

theorem confidence_interval_width:
  "np_sub (snd (confidence_interval (Num pe) (Num se)))
          (fst (confidence_interval (Num pe) (Num se))) = Num (392 / 100 * se)"
  by (simp add: confidence_interval_Num np_sub_Num)

text \<open>
  Claim C7, as stated, fails: at point estimate \<open>0\<close> and standard error \<open>1\<close> the code has
  one interval, \<open>(-1.96, 1.96)\<close>, for the levels 0.90, 0.95 and 0.99 alike; its lower
  bound is not strictly below itself, nor its upper bound strictly above itself.
\<close>

theorem interval_same_at_every_coverage:
  "confidence_interval (Num 0) (Num 1) = (Num (- (196 / 100)), Num (196 / 100))
   \<and> \<not> np_lt (fst (confidence_interval (Num 0) (Num 1)))
              (fst (confidence_interval (Num 0) (Num 1)))
   \<and> \<not> np_lt (snd (confidence_interval (Num 0) (Num 1)))
              (snd (confidence_interval (Num 0) (Num 1)))"
  by (simp add: confidence_interval_Num)




subsection \<open>Inputs outside the preconditions\<close>

text \<open>
  Claim C2, as the code has it. No operation checks its input or raises: each returns a
  scalar for every input. The dispersion \<open>-1\<close> gives the negative number \<open>-1 / sqrt n\<close>;
  the proportion \<open>1.5\<close> gives \<open>nan\<close>; with the count \<open>0\<close> the standard error of the mean
  is the quotient of the dispersion by zero and the standard error of the proportion is
  not finite; a negative standard error is squared away by pooling and makes the interval
  construction return its lower bound above its upper bound. There is no coverage to check.
\<close>

theorem no_input_validation:
  assumes "0 < n" and "se < 0"
  shows "standard_error_mean (- 1) n = Num (- 1 / sqrt (real_of_int n))
       \<and> standard_error_proportion (3 / 2) n = NaN
       \<and> standard_error_mean d 0 = inf_of_sign d
       \<and> \<not> is_finite (standard_error_mean d 0)
       \<and> \<not> is_finite (standard_error_proportion p 0)
       \<and> pool_standard_errors (Num se) (Num b) = Num (sqrt (se\<^sup>2 + b\<^sup>2))
       \<and> pool_standard_errors (Num a) (Num se) = Num (sqrt (a\<^sup>2 + se\<^sup>2))
       \<and> confidence_interval (Num pe) (Num se) =
           (Num (pe - 196 / 100 * se), Num (pe + 196 / 100 * se))
       \<and> \<not> np_le (fst (confidence_interval (Num pe) (Num se)))
                  (snd (confidence_interval (Num pe) (Num se)))"
proof -
  have d: "standard_error_mean (- 1) n = Num (- 1 / sqrt (real_of_int n))"
    using assms(1) by (rule standard_error_mean_Num)
  from assms(1) have "(3 / 2) * (1 - 3 / 2) / real_of_int n < 0"
    by (simp add: divide_neg_pos)
  then have q: "standard_error_proportion (3 / 2) n = NaN"
    using assms(1) by (simp add: standard_error_proportion_def np_sub_Num)
  have z: "standard_error_mean d 0 = inf_of_sign d"
    by (simp add: standard_error_mean_def)
  have zf: "\<not> is_finite (standard_error_mean d 0)"
    by (simp add: z inf_of_sign_def)
  have zp: "\<not> is_finite (standard_error_proportion p 0)"
    by (simp add: standard_error_proportion_def np_sub_Num inf_of_sign_def)
  from assms(2) have i: "\<not> np_le (fst (confidence_interval (Num pe) (Num se)))
                               (snd (confidence_interval (Num pe) (Num se)))"
    by (simp add: confidence_interval_Num)
  from d q z zf zp i show ?thesis
    by (simp only: pool_Num confidence_interval_Num simp_thms)
qed

theorem no_input_validation_witness:
  "(0::int) < 4 \<and> (- 1::real) < 0
   \<and> standard_error_mean (- 1) 4 = Num (- 1 / sqrt (real_of_int 4))
   \<and> standard_error_proportion (3 / 2) 4 = NaN
   \<and> standard_error_mean 1 0 = inf_of_sign 1
   \<and> \<not> is_finite (standard_error_mean 1 0)
   \<and> \<not> is_finite (standard_error_proportion (1 / 2) 0)
   \<and> pool_standard_errors (Num (- 1)) (Num 2) = Num (sqrt ((- 1)\<^sup>2 + 2\<^sup>2))
   \<and> pool_standard_errors (Num 2) (Num (- 1)) = Num (sqrt (2\<^sup>2 + (- 1)\<^sup>2))
   \<and> confidence_interval (Num 0) (Num (- 1)) =
       (Num (0 - 196 / 100 * (- 1)), Num (0 + 196 / 100 * (- 1)))
   \<and> \<not> np_le (fst (confidence_interval (Num 0) (Num (- 1))))
              (snd (confidence_interval (Num 0) (Num (- 1))))"
proof -
  have h: "(0::int) < 4" "(- 1::real) < 0" by simp_all
  from no_input_validation [OF h, of 1 "1 / 2" 2 2 0] h show ?thesis by blast
qed

text \<open>
  Claim C2, as stated, fails: for the dispersion \<open>-1\<close> and the count \<open>4\<close> the standard
  error of the mean is the number \<open>-0.5\<close>, where the claim has the operation raise.
\<close>

theorem negative_dispersion_returns_number:
  "standard_error_mean (- 1) 4 = Num (- (1 / 2))"
  by (simp add: standard_error_mean_def)

subsection \<open>The smoking scenario\<close>

text \<open>
  Claim C9. With the female proportion \<open>0.304845\<close> of \<open>2972\<close> and the male proportion
  \<open>0.513258\<close> of \<open>2753\<close>, the standard errors are \<open>0.0084442\<close> and \<open>0.0095261\<close> and the
  pooled one \<open>0.0127299\<close>, each to half a unit of its seventh decimal; the difference male
  minus female is \<open>0.208413\<close>; the interval of the pipeline is \<open>(0.183462, 0.233364)\<close>,
  each bound to half a unit of its sixth decimal.
\<close>

theorem smoking_scenario:
  "approx (standard_error_proportion (304845 / 1000000) 2972)
          (84442 / 10000000) (5 / 100000000)
   \<and> approx (standard_error_proportion (513258 / 1000000) 2753)
          (95261 / 10000000) (5 / 100000000)
   \<and> approx (pool_standard_errors (standard_error_proportion (304845 / 1000000) 2972)
                                  (standard_error_proportion (513258 / 1000000) 2753))
          (127299 / 10000000) (5 / 100000000)
   \<and> np_sub (Num (513258 / 1000000)) (Num (304845 / 1000000)) = Num (208413 / 1000000)
   \<and> approx (fst (proportion_difference_interval (513258 / 1000000) 2753
                                                (304845 / 1000000) 2972))
          (183462 / 1000000) (5 / 10000000)
   \<and> approx (snd (proportion_difference_interval (513258 / 1000000) 2753
                                                (304845 / 1000000) 2972))
          (233364 / 1000000) (5 / 10000000)"
proof -
  define xf :: real where "xf = 304845 / 1000000 * (1 - 304845 / 1000000) / real_of_int 2972"
  define xm :: real where "xm = 513258 / 1000000 * (1 - 513258 / 1000000) / real_of_int 2753"
  have sf: "standard_error_proportion (304845 / 1000000) 2972 = Num (sqrt xf)"
    unfolding xf_def by (rule standard_error_proportion_Num) simp_all
  have sm: "standard_error_proportion (513258 / 1000000) 2753 = Num (sqrt xm)"
    unfolding xm_def by (rule standard_error_proportion_Num) simp_all
  have pos: "0 \<le> xf" "0 \<le> xm" by (simp_all add: xf_def xm_def)
  have pool: "pool_standard_errors (Num (sqrt xf)) (Num (sqrt xm)) = Num (sqrt (xf + xm))"
    using pos by (simp add: pool_Num)
  have ci: "proportion_difference_interval (513258 / 1000000) 2753 (304845 / 1000000) 2972 =
              confidence_interval (Num (513258 / 1000000 - 304845 / 1000000))
                (Num (sqrt (xf + xm)))"
    unfolding xf_def xm_def by (rule proportion_difference_interval_Num) simp_all
  have bf: "844415 / 100000000 \<le> sqrt xf \<and> sqrt xf \<le> 844425 / 100000000"
    by (rule sqrt_between) (simp_all add: xf_def power2_eq_square)
  have bm: "952605 / 100000000 \<le> sqrt xm \<and> sqrt xm \<le> 952615 / 100000000"
    by (rule sqrt_between) (simp_all add: xm_def power2_eq_square)
  have bp: "1272988 / 100000000 \<le> sqrt (xf + xm) \<and> sqrt (xf + xm) \<le> 1272989 / 100000000"
    by (rule sqrt_between) (simp_all add: xf_def xm_def power2_eq_square)
  have 1: "approx (Num (sqrt xf)) (84442 / 10000000) (5 / 100000000)"
    unfolding approx.simps abs_le_iff using bf by linarith
  have 2: "approx (Num (sqrt xm)) (95261 / 10000000) (5 / 100000000)"
    unfolding approx.simps abs_le_iff using bm by linarith
  have 3: "approx (Num (sqrt (xf + xm))) (127299 / 10000000) (5 / 100000000)"
    unfolding approx.simps abs_le_iff using bp by linarith
  have 4: "np_sub (Num (513258 / 1000000)) (Num (304845 / 1000000)) = Num (208413 / 1000000)"
    by (simp add: np_sub_Num)
  have 5: "approx (fst (confidence_interval (Num (513258 / 1000000 - 304845 / 1000000))
                          (Num (sqrt (xf + xm)))))
             (183462 / 1000000) (5 / 10000000)"
    unfolding confidence_interval_Num fst_conv snd_conv approx.simps abs_le_iff
    using bp by linarith
  have 6: "approx (snd (confidence_interval (Num (513258 / 1000000 - 304845 / 1000000))
                          (Num (sqrt (xf + xm)))))
             (233364 / 1000000) (5 / 10000000)"
    unfolding confidence_interval_Num fst_conv snd_conv approx.simps abs_le_iff
    using bp by linarith
  from 1 2 3 4 5 6 show ?thesis
    unfolding sf sm pool ci by blast
qed

end
